theory Spec2Isabelle
  imports Complex_Main "HOL-Library.Word" "HOL-Library.Log_Nat"
begin

section \<open>decltype.cpp: the deduction rules and the eight demonstrations\<close>

text \<open>
  The source file is a walk through the rules of \<^verbatim>\<open>decltype\<close>. Two layers are modelled:
  \<^item> the static layer: the types and value categories of the expressions that the file
    hands to \<^verbatim>\<open>decltype\<close>, \<^verbatim>\<open>auto\<close> and \<^verbatim>\<open>decltype(auto)\<close>, and the four rules
    as the file's comments give them;
  \<^item> the dynamic layer: a store of objects, the declarations of each routine (a
    declaration of reference type binds a name to an existing object, any other one
    creates an object), and the text written to \<^verbatim>\<open>std::cout\<close>.
  The type a declaration gets from the static layer decides what it does in the dynamic
  layer, so that copy-versus-alias behaviour is a consequence of the deduced type.
\<close>

subsection \<open>Types, value categories and expressions\<close>

type_synonym name = string

text \<open>\<^verbatim>\<open>int\<close> is taken as the 32-bit two's complement integer.\<close>

type_synonym cint = "32 word"

text \<open>
  A \<^verbatim>\<open>double\<close> is a binary64 value: a finite one is given by the rational it denotes
  (the two zeros are not told apart).
\<close>

datatype double = Finite rat | PosInf | NegInf | NaN

datatype cpp_type =
    IntT
  | DoubleT
  | VectorInt
  | VectorIntIterator
  | LRef cpp_type
  | RRef cpp_type

datatype category = Lvalue | Xvalue | Prvalue

datatype expr =
    Ident name
  | Paren expr
  | IntLit cint
  | DoubleLit double
  | Plus expr expr
  | Begin expr
  | Call name "expr list"

type_synonym tenv = "name \<rightharpoonup> cpp_type"

type_synonym sigs = "name \<Rightarrow> cpp_type list \<Rightarrow> cpp_type option"

fun strip_ref :: "cpp_type \<Rightarrow> cpp_type" where
  "strip_ref (LRef T) = T"
| "strip_ref (RRef T) = T"
| "strip_ref T = T"

fun is_reference :: "cpp_type \<Rightarrow> bool" where
  "is_reference (LRef T) = True"
| "is_reference (RRef T) = True"
| "is_reference T = False"

text \<open>The usual arithmetic conversions, for the two arithmetic types of the file.\<close>

fun arithmetic_conversion :: "cpp_type \<Rightarrow> cpp_type \<Rightarrow> cpp_type option" where
  "arithmetic_conversion IntT IntT = Some IntT"
| "arithmetic_conversion IntT DoubleT = Some DoubleT"
| "arithmetic_conversion DoubleT IntT = Some DoubleT"
| "arithmetic_conversion DoubleT DoubleT = Some DoubleT"
| "arithmetic_conversion A B = None"

text \<open>The value category of a call, from the declared return type of the function.\<close>

fun call_category :: "cpp_type \<Rightarrow> category" where
  "call_category (LRef T) = Lvalue"
| "call_category (RRef T) = Xvalue"
| "call_category T = Prvalue"

text \<open>
  The (non-reference) type and the value category of an expression. \<open>None\<close> is an
  expression that does not compile.
\<close>

fun typing :: "sigs \<Rightarrow> tenv \<Rightarrow> expr \<Rightarrow> (cpp_type \<times> category) option" where
  "typing F G (Ident x) = map_option (\<lambda>T. (strip_ref T, Lvalue)) (G x)"
| "typing F G (Paren e) = typing F G e"
| "typing F G (IntLit n) = Some (IntT, Prvalue)"
| "typing F G (DoubleLit d) = Some (DoubleT, Prvalue)"
| "typing F G (Plus a b) =
     (case (typing F G a, typing F G b) of
        (Some (A, ca), Some (B, cb)) \<Rightarrow>
          map_option (\<lambda>T. (T, Prvalue)) (arithmetic_conversion A B)
      | _ \<Rightarrow> None)"
| "typing F G (Begin e) =
     (case typing F G e of
        Some (VectorInt, Lvalue) \<Rightarrow> Some (VectorIntIterator, Prvalue)
      | _ \<Rightarrow> None)"
| "typing F G (Call f args) =
     (case those (map (\<lambda>a. map_option fst (typing F G a)) args) of
        None \<Rightarrow> None
      | Some Ts \<Rightarrow>
          (case F f Ts of
             None \<Rightarrow> None
           | Some R \<Rightarrow> Some (strip_ref R, call_category R)))"

text \<open>
  \<^verbatim>\<open>decltype(e)\<close>, by the four rules in the comments of the file:
  rule 1, an unparenthesized identifier yields the declared type of the entity;
  rule 2, an lvalue yields \<^verbatim>\<open>T&\<close>; rule 3, an xvalue yields \<^verbatim>\<open>T&&\<close>;
  rule 4, a prvalue yields \<^verbatim>\<open>T\<close>.
\<close>

fun by_category :: "cpp_type \<times> category \<Rightarrow> cpp_type" where
  "by_category (T, Lvalue) = LRef T"
| "by_category (T, Xvalue) = RRef T"
| "by_category (T, Prvalue) = T"

fun decltype :: "sigs \<Rightarrow> tenv \<Rightarrow> expr \<Rightarrow> cpp_type option" where
  "decltype F G (Ident x) = G x"
| "decltype F G e = map_option by_category (typing F G e)"

text \<open>\<^verbatim>\<open>auto\<close> deduces the type of the initializer without its reference-ness.\<close>

definition auto_type :: "sigs \<Rightarrow> tenv \<Rightarrow> expr \<Rightarrow> cpp_type option" where
  "auto_type F G e = map_option fst (typing F G e)"

text \<open>\<^verbatim>\<open>decltype(auto)\<close> deduces \<^verbatim>\<open>decltype\<close> of the initializer.\<close>

definition decltype_auto :: "sigs \<Rightarrow> tenv \<Rightarrow> expr \<Rightarrow> cpp_type option" where
  "decltype_auto F G e = decltype F G e"

subsection \<open>The return types of the file's functions\<close>

text \<open>
  \<^verbatim>\<open>int&& get_rvalue()\<close> and \<^verbatim>\<open>int& get_ref()\<close> spell their return types out.
\<close>

definition declared_signatures :: sigs where
  "declared_signatures f Ts =
     (if f = ''get_rvalue'' \<and> Ts = [] then Some (RRef IntT)
      else if f = ''get_ref'' \<and> Ts = [] then Some (LRef IntT)
      else None)"

text \<open>
  \<^verbatim>\<open>auto get_auto() { return get_ref(); }\<close>,
  \<^verbatim>\<open>decltype(auto) get_decltype_auto() { return get_ref(); }\<close> and
  \<^verbatim>\<open>template <typename T, typename U> auto add(T t, U u) -> decltype(t + u)\<close>
  have their return types deduced.
\<close>

definition add_return_type :: "cpp_type \<Rightarrow> cpp_type \<Rightarrow> cpp_type option" where
  "add_return_type T U =
     decltype declared_signatures [''t'' \<mapsto> T, ''u'' \<mapsto> U] (Plus (Ident ''t'') (Ident ''u''))"

definition signatures :: sigs where
  "signatures f Ts =
     (if f = ''get_auto'' \<and> Ts = []
        then auto_type declared_signatures Map.empty (Call ''get_ref'' [])
      else if f = ''get_decltype_auto'' \<and> Ts = []
        then decltype_auto declared_signatures Map.empty (Call ''get_ref'' [])
      else if f = ''add''
        then (case Ts of [T, U] \<Rightarrow> add_return_type T U | _ \<Rightarrow> None)
      else declared_signatures f Ts)"

subsection \<open>Values and arithmetic\<close>

datatype addr = GlobalVar | StaticVal | Stack nat

datatype val =
    IntV cint
  | DoubleV double
  | VectorV "cint list"
  | IteratorV addr nat

fun type_of_val :: "val \<Rightarrow> cpp_type" where
  "type_of_val (IntV n) = IntT"
| "type_of_val (DoubleV d) = DoubleT"
| "type_of_val (VectorV xs) = VectorInt"
| "type_of_val (IteratorV a i) = VectorIntIterator"

datatype error = InvalidAccess addr | IllFormed | SignedOverflow

text \<open>
  Rounding a rational to binary64, to nearest with ties to even: 53 bits of
  significand, the least exponent of the unit in the last place is \<open>-1074\<close>, and a
  result of magnitude \<open>2 ^ 1024\<close> or more is an infinity. \<open>floor_log2 q\<close> is the
  integer part of the binary logarithm of a positive \<open>q\<close>.
\<close>

definition pow2 :: "int \<Rightarrow> rat" where
  "pow2 e = (if 0 \<le> e then 2 ^ nat e else 1 / 2 ^ nat (- e))"

definition floor_log2 :: "rat \<Rightarrow> int" where
  "floor_log2 q =
     (let (n, d) = quotient_of q; k = bitlen n - bitlen d
      in if pow2 k \<le> q then k else k - 1)"

definition round_even :: "rat \<Rightarrow> int" where
  "round_even q =
     (let f = \<lfloor>q\<rfloor>; r = q - of_int f
      in if r < 1 / 2 then f
         else if 1 / 2 < r then f + 1
         else if even f then f else f + 1)"

definition round_binary64 :: "rat \<Rightarrow> double" where
  "round_binary64 q =
     (if q = 0 then Finite 0
      else
        let e = max (- 1074) (floor_log2 \<bar>q\<bar> - 52);
            r = of_int (round_even (q / pow2 e)) * pow2 e
        in if 1024 \<le> floor_log2 \<bar>r\<bar> then (if 0 < q then PosInf else NegInf)
           else Finite r)"

definition int_to_double :: "cint \<Rightarrow> double" where
  "int_to_double n = round_binary64 (of_int (sint n))"

fun double_add :: "double \<Rightarrow> double \<Rightarrow> double" where
  "double_add (Finite a) (Finite b) = round_binary64 (a + b)"
| "double_add NaN y = NaN"
| "double_add x NaN = NaN"
| "double_add PosInf NegInf = NaN"
| "double_add NegInf PosInf = NaN"
| "double_add PosInf y = PosInf"
| "double_add NegInf y = NegInf"
| "double_add x PosInf = PosInf"
| "double_add x NegInf = NegInf"

text \<open>
  The built-in \<^verbatim>\<open>+\<close> on two arithmetic values: the operands are brought to their
  common type first. Signed overflow of \<^verbatim>\<open>int\<close> is undefined behaviour.
\<close>

fun plus_val :: "val \<Rightarrow> val \<Rightarrow> error + val" where
  "plus_val (IntV a) (IntV b) =
     (if - (2 ^ 31) \<le> sint a + sint b \<and> sint a + sint b < 2 ^ 31
      then Inr (IntV (a + b)) else Inl SignedOverflow)"
| "plus_val (IntV a) (DoubleV b) = Inr (DoubleV (double_add (int_to_double a) b))"
| "plus_val (DoubleV a) (IntV b) = Inr (DoubleV (double_add a (int_to_double b)))"
| "plus_val (DoubleV a) (DoubleV b) = Inr (DoubleV (double_add a b))"
| "plus_val x y = Inl IllFormed"

subsection \<open>The store, declarations and output\<close>

text \<open>
  The store holds the objects that are alive: \<^verbatim>\<open>global_var\<close>, the static \<^verbatim>\<open>val\<close> of
  \<^verbatim>\<open>get_rvalue\<close> once it is initialized, and the automatic objects, numbered from the
  bottom of the stack. \<open>stdout\<close> is what has been written to \<^verbatim>\<open>std::cout\<close>.
\<close>

record state =
  store :: "addr \<rightharpoonup> val"
  sp :: nat
  stdout :: string

text \<open>A declared name: its declared type and the object it denotes.\<close>

type_synonym binding = "cpp_type \<times> addr"

text \<open>The result of evaluating an expression: a glvalue names an object, a prvalue is a value.\<close>

datatype operand = LvalueAt addr | XvalueAt addr | PrvalueOf val

definition and_then :: "error + 'a \<Rightarrow> ('a \<Rightarrow> error + 'b) \<Rightarrow> error + 'b" where
  "and_then m f = (case m of Inl e \<Rightarrow> Inl e | Inr x \<Rightarrow> f x)"

definition load :: "addr \<Rightarrow> state \<Rightarrow> error + val" where
  "load a s = (case store s a of None \<Rightarrow> Inl (InvalidAccess a) | Some v \<Rightarrow> Inr v)"

definition assign :: "addr \<Rightarrow> val \<Rightarrow> state \<Rightarrow> error + state" where
  "assign a v s =
     (case store s a of
        None \<Rightarrow> Inl (InvalidAccess a)
      | Some old \<Rightarrow> Inr (s\<lparr>store := (store s)(a \<mapsto> v)\<rparr>))"

text \<open>The lvalue-to-rvalue conversion.\<close>

fun rvalue_of :: "operand \<Rightarrow> state \<Rightarrow> error + val" where
  "rvalue_of (PrvalueOf v) s = Inr v"
| "rvalue_of (LvalueAt a) s = load a s"
| "rvalue_of (XvalueAt a) s = load a s"

text \<open>A new automatic object of type \<open>T\<close>, initialized with \<open>v\<close>.\<close>

definition new_object :: "cpp_type \<Rightarrow> val \<Rightarrow> state \<Rightarrow> error + binding \<times> state" where
  "new_object T v s =
     (if type_of_val v = strip_ref T
      then Inr ((T, Stack (sp s)),
                s\<lparr>store := (store s)(Stack (sp s) \<mapsto> v), sp := Suc (sp s)\<rparr>)
      else Inl IllFormed)"

text \<open>A reference of type \<open>T\<close> bound to the object at \<open>a\<close>, which has to be alive.\<close>

definition bind_ref :: "cpp_type \<Rightarrow> addr \<Rightarrow> state \<Rightarrow> error + binding \<times> state" where
  "bind_ref T a s =
     and_then (load a s) (\<lambda>v.
       if type_of_val v = strip_ref T then Inr ((T, a), s) else Inl IllFormed)"

text \<open>
  The declaration \<^verbatim>\<open>T name = init;\<close>. An lvalue reference binds to an lvalue, an rvalue
  reference to an xvalue or to a temporary made from a prvalue; any other type makes a
  new object holding a copy of the initializer's value.
\<close>

fun declare_var :: "cpp_type option \<Rightarrow> operand \<Rightarrow> state \<Rightarrow> error + binding \<times> state" where
  "declare_var None r s = Inl IllFormed"
| "declare_var (Some (LRef U)) (LvalueAt a) s = bind_ref (LRef U) a s"
| "declare_var (Some (LRef U)) r s = Inl IllFormed"
| "declare_var (Some (RRef U)) (XvalueAt a) s = bind_ref (RRef U) a s"
| "declare_var (Some (RRef U)) (PrvalueOf v) s = new_object (RRef U) v s"
| "declare_var (Some (RRef U)) (LvalueAt a) s = Inl IllFormed"
| "declare_var (Some T) r s = and_then (rvalue_of r s) (\<lambda>v. new_object T v s)"

text \<open>
  \<^verbatim>\<open>return e;\<close> in a function whose return type is \<open>T\<close>: a reference type hands the
  object on, any other type hands a copy of its value on.
\<close>

fun return_as :: "cpp_type option \<Rightarrow> operand \<Rightarrow> state \<Rightarrow> error + operand" where
  "return_as None r s = Inl IllFormed"
| "return_as (Some (LRef U)) (LvalueAt a) s = and_then (load a s) (\<lambda>v. Inr (LvalueAt a))"
| "return_as (Some (LRef U)) r s = Inl IllFormed"
| "return_as (Some (RRef U)) (XvalueAt a) s = and_then (load a s) (\<lambda>v. Inr (XvalueAt a))"
| "return_as (Some (RRef U)) r s = Inl IllFormed"
| "return_as (Some T) r s = and_then (rvalue_of r s) (\<lambda>v. Inr (PrvalueOf v))"

text \<open>The end of a function body: the automatic objects made since \<open>n\<close> are destroyed.\<close>

fun automatic_from :: "nat \<Rightarrow> addr \<Rightarrow> bool" where
  "automatic_from n (Stack k) = (n \<le> k)"
| "automatic_from n a = False"

definition leave :: "nat \<Rightarrow> state \<Rightarrow> state" where
  "leave n s =
     s\<lparr>store := (\<lambda>a. if automatic_from n a then None else store s a), sp := n\<rparr>"

definition cout :: "string \<Rightarrow> state \<Rightarrow> state" where
  "cout str s = s\<lparr>stdout := stdout s @ str\<rparr>"

text \<open>
  \<^verbatim>\<open>print_type(var, var_name)\<close>: \<open>var\<close> is taken by reference to const, so the object
  has to be alive, and \<^verbatim>\<open>typeid(var)\<close> is the type without its reference.
  \<open>type_name\<close> is \<^verbatim>\<open>typeid(T).name()\<close>, which the implementation chooses.
\<close>

definition print_type :: "(cpp_type \<Rightarrow> string) \<Rightarrow> binding \<Rightarrow> string \<Rightarrow> state \<Rightarrow> error + state" where
  "print_type type_name var var_name s =
     and_then (load (snd var) s) (\<lambda>v.
       Inr (cout (var_name @ '' : '' @ type_name (strip_ref (fst var)) @ ''\<newline>'') s))"

subsection \<open>The routines of the file\<close>

text \<open>
  Each routine with local declarations comes in two parts: \<open>_decls\<close> runs the
  declarations and hands the bindings on, as they are when \<^verbatim>\<open>print_type\<close> is reached;
  the routine itself then prints and leaves its scope.
\<close>

text \<open>\<^verbatim>\<open>int x = 0; decltype(x) a = 1;\<close>\<close>

definition rule1_decls :: "state \<Rightarrow> error + (binding \<times> binding) \<times> state" where
  "rule1_decls s =
     and_then (declare_var (Some IntT) (PrvalueOf (IntV 0)) s) (\<lambda>(x, s1).
     and_then (declare_var (decltype signatures [''x'' \<mapsto> fst x] (Ident ''x''))
                 (PrvalueOf (IntV 1)) s1) (\<lambda>(a, s2).
     Inr ((x, a), s2)))"

definition rule1 :: "(cpp_type \<Rightarrow> string) \<Rightarrow> state \<Rightarrow> error + state" where
  "rule1 type_name s =
     and_then (rule1_decls s) (\<lambda>((x, a), s1).
     and_then (print_type type_name a ''a'' s1) (\<lambda>s2.
     Inr (leave (sp s) s2)))"

text \<open>\<^verbatim>\<open>int x = 0; decltype((x)) b = x;\<close>\<close>

definition rule2_decls :: "state \<Rightarrow> error + (binding \<times> binding) \<times> state" where
  "rule2_decls s =
     and_then (declare_var (Some IntT) (PrvalueOf (IntV 0)) s) (\<lambda>(x, s1).
     and_then (declare_var (decltype signatures [''x'' \<mapsto> fst x] (Paren (Ident ''x'')))
                 (LvalueAt (snd x)) s1) (\<lambda>(b, s2).
     Inr ((x, b), s2)))"

definition rule2 :: "(cpp_type \<Rightarrow> string) \<Rightarrow> state \<Rightarrow> error + state" where
  "rule2 type_name s =
     and_then (rule2_decls s) (\<lambda>((x, b), s1).
     and_then (print_type type_name b ''b'' s1) (\<lambda>s2.
     Inr (leave (sp s) s2)))"

text \<open>
  \<^verbatim>\<open>static int val = 42; return std::move(val);\<close> The static object is initialized
  when control first passes its declaration.
\<close>

definition static_init :: "addr \<Rightarrow> val \<Rightarrow> state \<Rightarrow> state" where
  "static_init a v s =
     (case store s a of
        None \<Rightarrow> s\<lparr>store := (store s)(a \<mapsto> v)\<rparr>
      | Some old \<Rightarrow> s)"

definition get_rvalue :: "state \<Rightarrow> error + operand \<times> state" where
  "get_rvalue s =
     (let s1 = static_init StaticVal (IntV 42) s
      in and_then (return_as (signatures ''get_rvalue'' []) (XvalueAt StaticVal) s1) (\<lambda>r.
         Inr (r, s1)))"

text \<open>
  \<^verbatim>\<open>decltype(get_rvalue()) c = get_rvalue();\<close> The operand of \<^verbatim>\<open>decltype\<close> is not
  evaluated: the function is called once, for the initializer.
\<close>

definition rule3_decls :: "state \<Rightarrow> error + binding \<times> state" where
  "rule3_decls s =
     and_then (get_rvalue s) (\<lambda>(r, s1).
     declare_var (decltype signatures Map.empty (Call ''get_rvalue'' [])) r s1)"

definition rule3 :: "(cpp_type \<Rightarrow> string) \<Rightarrow> state \<Rightarrow> error + state" where
  "rule3 type_name s =
     and_then (rule3_decls s) (\<lambda>(c, s1).
     and_then (print_type type_name c ''c'' s1) (\<lambda>s2.
     Inr (leave (sp s) s2)))"

text \<open>\<^verbatim>\<open>decltype(42) d = 42;\<close>\<close>

definition rule4_decls :: "state \<Rightarrow> error + binding \<times> state" where
  "rule4_decls s =
     declare_var (decltype signatures Map.empty (IntLit 42)) (PrvalueOf (IntV 42)) s"

definition rule4 :: "(cpp_type \<Rightarrow> string) \<Rightarrow> state \<Rightarrow> error + state" where
  "rule4 type_name s =
     and_then (rule4_decls s) (\<lambda>(d, s1).
     and_then (print_type type_name d ''d'' s1) (\<lambda>s2.
     Inr (leave (sp s) s2)))"

text \<open>
  \<^verbatim>\<open>auto add(T t, U u) -> decltype(t + u) { return t + u; }\<close> The parameters are
  passed by value; \<open>T\<close> and \<open>U\<close> are the types of the arguments.
\<close>

definition add :: "val \<Rightarrow> val \<Rightarrow> state \<Rightarrow> error + operand" where
  "add t u s =
     and_then (plus_val t u) (\<lambda>v.
     return_as (signatures ''add'' [type_of_val t, type_of_val u]) (PrvalueOf v) s)"

text \<open>\<^verbatim>\<open>auto sum = add(3, 4.5);\<close>\<close>

definition function_return_type_decls :: "state \<Rightarrow> error + binding \<times> state" where
  "function_return_type_decls s =
     and_then (add (IntV 3) (DoubleV (Finite (9 / 2))) s) (\<lambda>r.
     declare_var
       (auto_type signatures Map.empty (Call ''add'' [IntLit 3, DoubleLit (Finite (9 / 2))]))
       r s)"

definition function_return_type :: "(cpp_type \<Rightarrow> string) \<Rightarrow> state \<Rightarrow> error + state" where
  "function_return_type type_name s =
     and_then (function_return_type_decls s) (\<lambda>(sum, s1).
     and_then (print_type type_name sum ''sum'' s1) (\<lambda>s2.
     Inr (leave (sp s) s2)))"

text \<open>\<^verbatim>\<open>vec.begin()\<close>: an iterator to position 0 of the vector object.\<close>

definition begin_of :: "addr \<Rightarrow> state \<Rightarrow> error + operand" where
  "begin_of a s =
     and_then (load a s) (\<lambda>v.
       case v of VectorV xs \<Rightarrow> Inr (PrvalueOf (IteratorV a 0)) | _ \<Rightarrow> Inl IllFormed)"

text \<open>
  \<^verbatim>\<open>std::vector<int> vec = {1, 2, 3}; decltype(vec.begin()) it = vec.begin();\<close>
\<close>

definition complex_types_decls :: "state \<Rightarrow> error + (binding \<times> binding) \<times> state" where
  "complex_types_decls s =
     and_then (declare_var (Some VectorInt) (PrvalueOf (VectorV [1, 2, 3])) s) (\<lambda>(vec, s1).
     and_then (begin_of (snd vec) s1) (\<lambda>r.
     and_then (declare_var (decltype signatures [''vec'' \<mapsto> fst vec] (Begin (Ident ''vec'')))
                 r s1) (\<lambda>(it, s2).
     Inr ((vec, it), s2))))"

definition complex_types :: "(cpp_type \<Rightarrow> string) \<Rightarrow> state \<Rightarrow> error + state" where
  "complex_types type_name s =
     and_then (complex_types_decls s) (\<lambda>((vec, it), s1).
     and_then (print_type type_name it ''it'' s1) (\<lambda>s2.
     Inr (leave (sp s) s2)))"

text \<open>\<^verbatim>\<open>int global_var = 10;\<close> is the object at \<open>GlobalVar\<close>.\<close>

definition get_ref :: "state \<Rightarrow> error + operand" where
  "get_ref s = return_as (signatures ''get_ref'' []) (LvalueAt GlobalVar) s"

definition get_auto :: "state \<Rightarrow> error + operand" where
  "get_auto s =
     and_then (get_ref s) (\<lambda>r. return_as (signatures ''get_auto'' []) r s)"

definition get_decltype_auto :: "state \<Rightarrow> error + operand" where
  "get_decltype_auto s =
     and_then (get_ref s) (\<lambda>r. return_as (signatures ''get_decltype_auto'' []) r s)"

text \<open>
  \<^verbatim>\<open>auto val = get_auto(); decltype(auto) ref = get_decltype_auto();\<close>
\<close>

definition decltype_auto_demo_decls :: "state \<Rightarrow> error + (binding \<times> binding) \<times> state" where
  "decltype_auto_demo_decls s =
     and_then (get_auto s) (\<lambda>r1.
     and_then (declare_var (auto_type signatures Map.empty (Call ''get_auto'' [])) r1 s)
       (\<lambda>(val, s1).
     and_then (get_decltype_auto s1) (\<lambda>r2.
     and_then (declare_var (decltype_auto signatures Map.empty (Call ''get_decltype_auto'' []))
                 r2 s1) (\<lambda>(ref, s2).
     Inr ((val, ref), s2)))))"

definition decltype_auto_demo :: "(cpp_type \<Rightarrow> string) \<Rightarrow> state \<Rightarrow> error + state" where
  "decltype_auto_demo type_name s =
     and_then (decltype_auto_demo_decls s) (\<lambda>((val, ref), s1).
     and_then (print_type type_name val ''val'' s1) (\<lambda>s2.
     and_then (print_type type_name ref ''ref'' s2) (\<lambda>s3.
     Inr (leave (sp s) s3))))"

text \<open>\<^verbatim>\<open>int x = 0; decltype(x) a = 1; decltype((x)) b = x;\<close>\<close>

definition parentheses_effect_decls ::
    "state \<Rightarrow> error + (binding \<times> binding \<times> binding) \<times> state" where
  "parentheses_effect_decls s =
     and_then (declare_var (Some IntT) (PrvalueOf (IntV 0)) s) (\<lambda>(x, s1).
     and_then (declare_var (decltype signatures [''x'' \<mapsto> fst x] (Ident ''x''))
                 (PrvalueOf (IntV 1)) s1) (\<lambda>(a, s2).
     and_then (declare_var (decltype signatures [''x'' \<mapsto> fst x] (Paren (Ident ''x'')))
                 (LvalueAt (snd x)) s2) (\<lambda>(b, s3).
     Inr ((x, a, b), s3))))"

definition parentheses_effect :: "(cpp_type \<Rightarrow> string) \<Rightarrow> state \<Rightarrow> error + state" where
  "parentheses_effect type_name s =
     and_then (parentheses_effect_decls s) (\<lambda>((x, a, b), s1).
     and_then (print_type type_name a ''a'' s1) (\<lambda>s2.
     and_then (print_type type_name b ''b'' s2) (\<lambda>s3.
     Inr (leave (sp s) s3))))"

text \<open>\<^verbatim>\<open>main\<close>: a banner and a routine, eight times, then \<^verbatim>\<open>return 0\<close>.\<close>

definition main :: "(cpp_type \<Rightarrow> string) \<Rightarrow> state \<Rightarrow> error + int \<times> state" where
  "main type_name s =
     and_then (rule1 type_name (cout ''Rule 1:\<newline>'' s)) (\<lambda>s1.
     and_then (rule2 type_name (cout ''\<newline>Rule 2:\<newline>'' s1)) (\<lambda>s2.
     and_then (rule3 type_name (cout ''\<newline>Rule 3:\<newline>'' s2)) (\<lambda>s3.
     and_then (rule4 type_name (cout ''\<newline>Rule 4:\<newline>'' s3)) (\<lambda>s4.
     and_then (function_return_type type_name
                 (cout ''\<newline>Function Return Type:\<newline>'' s4)) (\<lambda>s5.
     and_then (complex_types type_name (cout ''\<newline>Complex Types:\<newline>'' s5)) (\<lambda>s6.
     and_then (decltype_auto_demo type_name
                 (cout ''\<newline>decltype(auto) Demo:\<newline>'' s6)) (\<lambda>s7.
     and_then (parentheses_effect type_name
                 (cout ''\<newline>Parentheses Effect:\<newline>'' s7)) (\<lambda>s8.
     Inr (0, s8)))))))))"

text \<open>
  The state in which \<^verbatim>\<open>main\<close> starts: \<^verbatim>\<open>global_var\<close> holds 10, the static of
  \<^verbatim>\<open>get_rvalue\<close> is not yet initialized, the stack is empty, nothing is written.
\<close>

definition initial_state :: state where
  "initial_state = \<lparr>store = [GlobalVar \<mapsto> IntV 10], sp = 0, stdout = []\<rparr>"

definition run :: "(cpp_type \<Rightarrow> string) \<Rightarrow> error + int \<times> state" where
  "run type_name = main type_name initial_state"

subsection \<open>States and output as the properties speak of them\<close>

text \<open>
  \<^verbatim>\<open>global_var\<close> is alive and holds an \<^verbatim>\<open>int\<close>; the static of \<^verbatim>\<open>get_rvalue\<close> is
  either not yet initialized or holds its initial value 42.
\<close>

definition global_var_alive :: "state \<Rightarrow> bool" where
  "global_var_alive s = (case store s GlobalVar of Some (IntV n) \<Rightarrow> True | _ \<Rightarrow> False)"

definition static_val_ok :: "state \<Rightarrow> bool" where
  "static_val_ok s = (case store s StaticVal of None \<Rightarrow> True | Some v \<Rightarrow> v = IntV 42)"

text \<open>
  The eight demonstrations in their order, each with its banner and the variables it
  prints with their deduced types, and the text they make up: a banner line ending in a
  colon, a line \<open>name : type\<close> for each variable, an empty line between two sections.
\<close>

definition demonstrations :: "(string \<times> (string \<times> cpp_type) list) list" where
  "demonstrations =
     [(''Rule 1'', [(''a'', IntT)]),
      (''Rule 2'', [(''b'', LRef IntT)]),
      (''Rule 3'', [(''c'', RRef IntT)]),
      (''Rule 4'', [(''d'', IntT)]),
      (''Function Return Type'', [(''sum'', DoubleT)]),
      (''Complex Types'', [(''it'', VectorIntIterator)]),
      (''decltype(auto) Demo'', [(''val'', IntT), (''ref'', LRef IntT)]),
      (''Parentheses Effect'', [(''a'', IntT), (''b'', LRef IntT)])]"

definition section_lines ::
    "(cpp_type \<Rightarrow> string) \<Rightarrow> string \<times> (string \<times> cpp_type) list \<Rightarrow> string list" where
  "section_lines type_name d =
     (fst d @ '':'') # map (\<lambda>(v, T). v @ '' : '' @ type_name (strip_ref T)) (snd d)"

fun join_sections :: "string list list \<Rightarrow> string list" where
  "join_sections [] = []"
| "join_sections [x] = x"
| "join_sections (x # y # ys) = x @ [] # join_sections (y # ys)"

definition unlines :: "string list \<Rightarrow> string" where
  "unlines ls = concat (map (\<lambda>l. l @ ''\<newline>'') ls)"

definition expected_output :: "(cpp_type \<Rightarrow> string) \<Rightarrow> string" where
  "expected_output type_name =
     unlines (join_sections (map (section_lines type_name) demonstrations))"

text \<open>
  Reading a text back: its lines, and among them the banners, which are the lines that
  end in a colon.
\<close>

fun split_lines :: "string \<Rightarrow> string list" where
  "split_lines [] = [[]]"
| "split_lines (c # cs) =
     (if c = CHR ''\<newline>'' then [] # split_lines cs
      else (case split_lines cs of [] \<Rightarrow> [[c]] | l # ls \<Rightarrow> (c # l) # ls))"

definition is_banner :: "string \<Rightarrow> bool" where
  "is_banner l = (l \<noteq> [] \<and> last l = CHR '':'')"

definition banners :: "string \<Rightarrow> string list" where
  "banners text = filter is_banner (split_lines text)"

text \<open>
  The names of the three printed types neither hold a line break nor end in a colon.
  The names that GCC gives (the mangled names of the Itanium ABI) are of this kind.
\<close>

definition plain_names :: "(cpp_type \<Rightarrow> string) \<Rightarrow> bool" where
  "plain_names type_name =
     list_all (\<lambda>T. CHR ''\<newline>'' \<notin> set (type_name T) \<and> \<not> is_banner (type_name T))
       [IntT, DoubleT, VectorIntIterator]"

fun gcc_type_name :: "cpp_type \<Rightarrow> string" where
  "gcc_type_name IntT = ''i''"
| "gcc_type_name DoubleT = ''d''"
| "gcc_type_name VectorInt = ''St6vectorIiSaIiEE''"
| "gcc_type_name VectorIntIterator = ''N9__gnu_cxx17__normal_iteratorIPiSt6vectorIiSaIiEEEE''"
| "gcc_type_name (LRef T) = gcc_type_name T"
| "gcc_type_name (RRef T) = gcc_type_name T"

section \<open>Properties\<close>

subsection \<open>Auxiliary facts\<close>

lemmas deduction_defs =
  signatures_def declared_signatures_def auto_type_def decltype_auto_def add_return_type_def

lemmas store_defs = and_then_def load_def assign_def new_object_def bind_ref_def

lemma sum_3_4_5: "double_add (int_to_double 3) (Finite (9 / 2)) = Finite (15 / 2)"
  by code_simp

lemma global_var_aliveE: "global_var_alive s \<Longrightarrow> \<exists>n. store s GlobalVar = Some (IntV n)"
  by (auto simp: global_var_alive_def split: option.splits val.splits)

lemma leave_simps [simp]:
  "sp (leave n s) = n"
  "stdout (leave n s) = stdout s"
  "store (leave n s) GlobalVar = store s GlobalVar"
  "store (leave n s) StaticVal = store s StaticVal"
  by (simp_all add: leave_def)

lemma cout_simps [simp]:
  "sp (cout str s) = sp s"
  "stdout (cout str s) = stdout s @ str"
  "store (cout str s) = store s"
  by (simp_all add: cout_def)

lemma static_init_simps [simp]:
  "sp (static_init a v s) = sp s"
  "stdout (static_init a v s) = stdout s"
  "store (static_init StaticVal v s) GlobalVar = store s GlobalVar"
  by (simp_all add: static_init_def split: option.splits)

lemma static_init_ok [simp]:
  "static_val_ok s \<Longrightarrow> store (static_init StaticVal (IntV 42) s) StaticVal = Some (IntV 42)"
  by (simp add: static_init_def static_val_ok_def split: option.splits)

lemma static_init_again: "store s a = Some v \<Longrightarrow> static_init a w s = s"
  by (simp add: static_init_def)

lemma ok_preserved [simp]:
  "static_val_ok (leave n s) = static_val_ok s"
  "static_val_ok (cout str s) = static_val_ok s"
  "global_var_alive (leave n s) = global_var_alive s"
  "global_var_alive (cout str s) = global_var_alive s"
  "global_var_alive (static_init StaticVal v s) = global_var_alive s"
  by (simp_all add: static_val_ok_def global_var_alive_def)

lemma static_val_ok_init [simp]:
  "static_val_ok s \<Longrightarrow> static_val_ok (static_init StaticVal (IntV 42) s)"
  by (simp add: static_val_ok_def static_init_def split: option.splits)

lemma initial_state_ok:
  "global_var_alive initial_state"
  "static_val_ok initial_state"
  "store initial_state GlobalVar = Some (IntV 10)"
  "stdout initial_state = []"
  "sp initial_state = 0"
  by (simp_all add: initial_state_def global_var_alive_def static_val_ok_def)

text \<open>Leaving a scope undoes the declarations made in it; writing does not touch the store.\<close>

lemma leave_after_locals:
  "leave (sp s) (s\<lparr>store := (store s)(Stack (sp s) \<mapsto> v), sp := n\<rparr>) = leave (sp s) s"
  "leave (sp s)
     (s\<lparr>store := (store s)(Stack (sp s) \<mapsto> v, Stack (Suc (sp s)) \<mapsto> w), sp := n\<rparr>) =
   leave (sp s) s"
  by (auto simp: leave_def fun_eq_iff elim: automatic_from.elims)

lemma leave_cout: "leave n (cout str s) = cout str (leave n s)"
  by (simp add: leave_def cout_def cong: if_cong)

lemmas routine_defs = print_type_def store_defs deduction_defs leave_cout leave_after_locals

text \<open>What each routine does to the state, as one equation.\<close>

lemma rule1_effect:
  "rule1 tn s = Inr (cout (''a : '' @ tn IntT @ ''\<newline>'') (leave (sp s) s))"
  by (simp add: rule1_def rule1_decls_def routine_defs)

lemma rule2_effect:
  "rule2 tn s = Inr (cout (''b : '' @ tn IntT @ ''\<newline>'') (leave (sp s) s))"
  by (simp add: rule2_def rule2_decls_def routine_defs)

lemma get_rvalue_effect:
  assumes "static_val_ok s"
  shows "get_rvalue s = Inr (XvalueAt StaticVal, static_init StaticVal (IntV 42) s)"
  using assms by (simp add: get_rvalue_def store_defs deduction_defs)

lemma rule3_decls_effect:
  assumes "static_val_ok s"
  shows "rule3_decls s = Inr ((RRef IntT, StaticVal), static_init StaticVal (IntV 42) s)"
  using assms by (simp add: rule3_decls_def get_rvalue_effect store_defs deduction_defs)

lemma rule3_effect:
  assumes "static_val_ok s"
  shows "rule3 tn s =
    Inr (cout (''c : '' @ tn IntT @ ''\<newline>'')
      (leave (sp s) (static_init StaticVal (IntV 42) s)))"
proof -
  have "sp (static_init StaticVal (IntV 42) s) = sp s"
    by simp
  then show ?thesis
    using assms by (simp add: rule3_def rule3_decls_effect print_type_def store_defs leave_cout)
qed

lemma rule4_effect:
  "rule4 tn s = Inr (cout (''d : '' @ tn IntT @ ''\<newline>'') (leave (sp s) s))"
  by (simp add: rule4_def rule4_decls_def routine_defs)

lemma function_return_type_effect:
  "function_return_type tn s =
    Inr (cout (''sum : '' @ tn DoubleT @ ''\<newline>'') (leave (sp s) s))"
  by (simp add: function_return_type_def function_return_type_decls_def add_def sum_3_4_5
      routine_defs)

lemma complex_types_effect:
  "complex_types tn s =
    Inr (cout (''it : '' @ tn VectorIntIterator @ ''\<newline>'') (leave (sp s) s))"
  by (simp add: complex_types_def complex_types_decls_def begin_of_def routine_defs)

lemma decltype_auto_demo_effect:
  assumes "global_var_alive s"
  shows "decltype_auto_demo tn s =
    Inr (cout (''ref : '' @ tn IntT @ ''\<newline>'')
      (cout (''val : '' @ tn IntT @ ''\<newline>'') (leave (sp s) s)))"
proof -
  from assms obtain n where n: "store s GlobalVar = Some (IntV n)"
    using global_var_aliveE by blast
  show ?thesis
    by (simp add: n decltype_auto_demo_def decltype_auto_demo_decls_def get_auto_def
        get_decltype_auto_def get_ref_def routine_defs)
qed

lemma parentheses_effect_effect:
  "parentheses_effect tn s =
    Inr (cout (''b : '' @ tn IntT @ ''\<newline>'')
      (cout (''a : '' @ tn IntT @ ''\<newline>'') (leave (sp s) s)))"
  by (simp add: parentheses_effect_def parentheses_effect_decls_def routine_defs)

lemma main_effect:
  assumes "global_var_alive s" and "static_val_ok s"
  shows "\<exists>s'. main tn s = Inr (0, s') \<and> stdout s' = stdout s @ expected_output tn
     \<and> store s' GlobalVar = store s GlobalVar \<and> store s' StaticVal = Some (IntV 42)
     \<and> sp s' = sp s"
  using assms
  by (simp add: main_def and_then_def rule1_effect rule2_effect rule3_effect rule4_effect
      function_return_type_effect complex_types_effect decltype_auto_demo_effect
      parentheses_effect_effect expected_output_def unlines_def demonstrations_def
      section_lines_def)

lemma run_effect:
  "\<exists>s'. run tn = Inr (0, s') \<and> stdout s' = expected_output tn
     \<and> store s' GlobalVar = Some (IntV 10) \<and> store s' StaticVal = Some (IntV 42) \<and> sp s' = 0"
  using main_effect [OF initial_state_ok(1,2), of tn] by (simp add: run_def initial_state_ok)

text \<open>Lines written with their terminators are the lines read back.\<close>

lemma split_lines_line:
  "CHR ''\<newline>'' \<notin> set l \<Longrightarrow> split_lines (l @ CHR ''\<newline>'' # cs) = l # split_lines cs"
  by (induction l) auto

lemma split_lines_unlines:
  "\<forall>l \<in> set ls. CHR ''\<newline>'' \<notin> set l \<Longrightarrow> split_lines (unlines ls) = ls @ [[]]"
  by (induction ls) (simp_all add: unlines_def split_lines_line)

lemma banners_expected_output:
  assumes "plain_names tn"
  shows "banners (expected_output tn) = map (\<lambda>d. fst d @ '':'') demonstrations"
proof -
  let ?ls = "join_sections (map (section_lines tn) demonstrations)"
  have nl: "\<forall>l \<in> set ?ls. CHR ''\<newline>'' \<notin> set l"
    using assms by (simp add: plain_names_def demonstrations_def section_lines_def)
  have "banners (expected_output tn) = filter is_banner (?ls @ [[]])"
    by (simp add: banners_def expected_output_def split_lines_unlines [OF nl])
  also have "\<dots> = map (\<lambda>d. fst d @ '':'') demonstrations"
    using assms
    by (auto simp: plain_names_def demonstrations_def section_lines_def is_banner_def)
  finally show ?thesis .
qed

lemma plain_names_gcc: "plain_names gcc_type_name"
  by (simp add: plain_names_def is_banner_def)

subsection \<open>The claims\<close>

text \<open>
  C1. In \<^verbatim>\<open>rule2\<close> and in \<^verbatim>\<open>parentheses_effect\<close>, the binding declared as
  \<^verbatim>\<open>decltype((x)) b = x\<close> has the type \<^verbatim>\<open>int&\<close> and names the object of \<open>x\<close>, not
  a copy of it: \<open>x\<close> holds 0 after the declarations; assigning 1 through \<open>b\<close> and then
  reading \<open>x\<close> gives 1; and whatever value is assigned through one of the two names is
  the value read through the other.
\<close>

theorem parenthesized_binding_aliases:
  "(\<exists>x b s'. rule2_decls s = Inr ((x, b), s') \<and> fst b = LRef IntT \<and> snd b = snd x
       \<and> load (snd x) s' = Inr (IntV 0)
       \<and> and_then (assign (snd b) (IntV 1) s') (load (snd x)) = Inr (IntV 1)
       \<and> (\<forall>v. and_then (assign (snd b) v s') (load (snd x)) = Inr v)
       \<and> (\<forall>v. and_then (assign (snd x) v s') (load (snd b)) = Inr v))
   \<and> (\<exists>x a b s'. parentheses_effect_decls s = Inr ((x, a, b), s')
       \<and> fst b = LRef IntT \<and> snd b = snd x
       \<and> load (snd x) s' = Inr (IntV 0)
       \<and> and_then (assign (snd b) (IntV 1) s') (load (snd x)) = Inr (IntV 1)
       \<and> (\<forall>v. and_then (assign (snd b) v s') (load (snd x)) = Inr v)
       \<and> (\<forall>v. and_then (assign (snd x) v s') (load (snd b)) = Inr v))"
  by (simp add: rule2_decls_def parentheses_effect_decls_def store_defs deduction_defs)

text \<open>
  C2. \<^verbatim>\<open>get_auto\<close> has the deduced return type \<^verbatim>\<open>int\<close> and returns the value that
  \<^verbatim>\<open>global_var\<close> holds at the call, a copy: assigning to \<^verbatim>\<open>global_var\<close> afterwards
  does not change what was returned, nor what \<open>val\<close> holds in \<^verbatim>\<open>decltype_auto_demo\<close>.
  \<^verbatim>\<open>get_decltype_auto\<close> has the deduced return type \<^verbatim>\<open>int&\<close> and returns the object
  \<^verbatim>\<open>global_var\<close> itself: whatever is assigned to \<^verbatim>\<open>global_var\<close> afterwards is what is
  read through the result, and through \<open>ref\<close> in \<^verbatim>\<open>decltype_auto_demo\<close>.
\<close>

theorem get_auto_copies_get_decltype_auto_aliases:
  assumes "global_var_alive s"
  shows "\<exists>n. store s GlobalVar = Some (IntV n)
    \<and> signatures ''get_auto'' [] = Some IntT
    \<and> signatures ''get_decltype_auto'' [] = Some (LRef IntT)
    \<and> get_auto s = Inr (PrvalueOf (IntV n))
    \<and> get_decltype_auto s = Inr (LvalueAt GlobalVar)
    \<and> (\<forall>v. and_then (assign GlobalVar v s) (rvalue_of (PrvalueOf (IntV n))) = Inr (IntV n))
    \<and> (\<forall>v. and_then (assign GlobalVar v s) (rvalue_of (LvalueAt GlobalVar)) = Inr v)
    \<and> (\<exists>val ref s'. decltype_auto_demo_decls s = Inr ((val, ref), s')
          \<and> fst val = IntT \<and> fst ref = LRef IntT
          \<and> snd val \<noteq> GlobalVar \<and> snd ref = GlobalVar
          \<and> load (snd val) s' = Inr (IntV n)
          \<and> (\<forall>v. and_then (assign GlobalVar v s') (load (snd val)) = Inr (IntV n))
          \<and> (\<forall>v. and_then (assign GlobalVar v s') (load (snd ref)) = Inr v))"
proof -
  from assms obtain n where n: "store s GlobalVar = Some (IntV n)"
    using global_var_aliveE by blast
  have types: "signatures ''get_auto'' [] = Some IntT"
      "signatures ''get_decltype_auto'' [] = Some (LRef IntT)"
    by (simp_all add: deduction_defs)
  have calls: "get_auto s = Inr (PrvalueOf (IntV n))"
      "get_decltype_auto s = Inr (LvalueAt GlobalVar)"
    by (simp_all add: n get_auto_def get_decltype_auto_def get_ref_def store_defs deduction_defs)
  have later: "\<forall>v. and_then (assign GlobalVar v s) (rvalue_of (PrvalueOf (IntV n))) = Inr (IntV n)"
      "\<forall>v. and_then (assign GlobalVar v s) (rvalue_of (LvalueAt GlobalVar)) = Inr v"
    by (simp_all add: n store_defs)
  have demo: "\<exists>val ref s'. decltype_auto_demo_decls s = Inr ((val, ref), s')
      \<and> fst val = IntT \<and> fst ref = LRef IntT
      \<and> snd val \<noteq> GlobalVar \<and> snd ref = GlobalVar
      \<and> load (snd val) s' = Inr (IntV n)
      \<and> (\<forall>v. and_then (assign GlobalVar v s') (load (snd val)) = Inr (IntV n))
      \<and> (\<forall>v. and_then (assign GlobalVar v s') (load (snd ref)) = Inr v)"
    by (simp add: n decltype_auto_demo_decls_def get_auto_def get_decltype_auto_def get_ref_def
        store_defs deduction_defs)
  from n types calls later demo show ?thesis
    by blast
qed

theorem get_auto_copies_get_decltype_auto_aliases_witness:
  "global_var_alive initial_state
   \<and> get_auto initial_state = Inr (PrvalueOf (IntV 10))
   \<and> get_decltype_auto initial_state = Inr (LvalueAt GlobalVar)"
  using get_auto_copies_get_decltype_auto_aliases [of initial_state]
  by (auto simp: initial_state_ok)

text \<open>
  C3. In \<^verbatim>\<open>add(3, 4.5)\<close> the arguments have the types \<^verbatim>\<open>int\<close> and \<^verbatim>\<open>double\<close>, the
  deduced return type \<^verbatim>\<open>decltype(t + u)\<close> is \<^verbatim>\<open>double\<close>, the call returns 7.5, and
  \<open>sum\<close> in \<^verbatim>\<open>function_return_type\<close> is a \<^verbatim>\<open>double\<close> holding 7.5.
\<close>

theorem add_int_double_is_double:
  "typing signatures Map.empty (IntLit 3) = Some (IntT, Prvalue)
   \<and> typing signatures Map.empty (DoubleLit (Finite (9 / 2))) = Some (DoubleT, Prvalue)
   \<and> add_return_type IntT DoubleT = Some DoubleT
   \<and> typing signatures Map.empty (Call ''add'' [IntLit 3, DoubleLit (Finite (9 / 2))])
       = Some (DoubleT, Prvalue)
   \<and> add (IntV 3) (DoubleV (Finite (9 / 2))) s = Inr (PrvalueOf (DoubleV (Finite (15 / 2))))
   \<and> (\<exists>sum s'. function_return_type_decls s = Inr (sum, s') \<and> fst sum = DoubleT
          \<and> load (snd sum) s' = Inr (DoubleV (Finite (15 / 2))))"
proof -
  have ret: "add (IntV 3) (DoubleV (Finite (9 / 2))) s
      = Inr (PrvalueOf (DoubleV (Finite (15 / 2))))"
    by (simp add: add_def sum_3_4_5 store_defs deduction_defs)
  have "\<exists>sum s'. function_return_type_decls s = Inr (sum, s') \<and> fst sum = DoubleT
      \<and> load (snd sum) s' = Inr (DoubleV (Finite (15 / 2)))"
    by (simp add: function_return_type_decls_def ret store_defs deduction_defs)
  with ret show ?thesis
    by (simp add: deduction_defs)
qed

text \<open>
  C4. In \<^verbatim>\<open>rule1\<close> and in \<^verbatim>\<open>parentheses_effect\<close>, the binding declared as
  \<^verbatim>\<open>decltype(x) a = 1\<close> from the unparenthesized \<open>x\<close> has the declared type of \<open>x\<close>,
  \<^verbatim>\<open>int\<close>, which is no reference type; \<open>a\<close> is an object of its own, distinct from
  that of \<open>x\<close>, and whatever is assigned to \<open>a\<close>, \<open>x\<close> still holds 0.
\<close>

theorem bare_identifier_binding_is_copy:
  "decltype signatures [''x'' \<mapsto> IntT] (Ident ''x'') = Some IntT
   \<and> (\<exists>x a s'. rule1_decls s = Inr ((x, a), s')
       \<and> fst x = IntT \<and> fst a = fst x \<and> \<not> is_reference (fst a) \<and> snd a \<noteq> snd x
       \<and> load (snd x) s' = Inr (IntV 0) \<and> load (snd a) s' = Inr (IntV 1)
       \<and> (\<forall>v. and_then (assign (snd a) v s') (load (snd x)) = Inr (IntV 0)))
   \<and> (\<exists>x a b s'. parentheses_effect_decls s = Inr ((x, a, b), s')
       \<and> fst x = IntT \<and> fst a = fst x \<and> \<not> is_reference (fst a) \<and> snd a \<noteq> snd x
       \<and> load (snd x) s' = Inr (IntV 0) \<and> load (snd a) s' = Inr (IntV 1)
       \<and> (\<forall>v. and_then (assign (snd a) v s') (load (snd x)) = Inr (IntV 0)))"
  by (simp add: rule1_decls_def parentheses_effect_decls_def store_defs deduction_defs)

text \<open>
  C5. In \<^verbatim>\<open>rule4\<close>, the literal 42 is a prvalue of type \<^verbatim>\<open>int\<close>, the binding
  declared as \<^verbatim>\<open>decltype(42) d = 42\<close> has the type \<^verbatim>\<open>int\<close>, which is no reference
  type, and \<open>d\<close> holds 42 after its initialization.
\<close>

theorem literal_binding_is_int:
  "typing signatures Map.empty (IntLit 42) = Some (IntT, Prvalue)
   \<and> decltype signatures Map.empty (IntLit 42) = Some IntT
   \<and> (\<exists>d s'. rule4_decls s = Inr (d, s') \<and> fst d = IntT \<and> \<not> is_reference (fst d)
        \<and> load (snd d) s' = Inr (IntV 42))"
  by (simp add: rule4_decls_def store_defs deduction_defs)

text \<open>
  C6. In \<^verbatim>\<open>rule3\<close>, the call \<^verbatim>\<open>get_rvalue()\<close> is an xvalue and the binding \<open>c\<close>
  declared as \<^verbatim>\<open>decltype(get_rvalue())\<close> has the type \<^verbatim>\<open>int&&\<close>; the parenthesized
  \<open>x\<close> of \<^verbatim>\<open>rule2\<close> is an lvalue and its binding \<open>b\<close> has the type \<^verbatim>\<open>int&\<close>; the two
  types differ.
\<close>

theorem xvalue_binding_is_rvalue_reference:
  assumes "static_val_ok s"
  shows "typing signatures Map.empty (Call ''get_rvalue'' []) = Some (IntT, Xvalue)
     \<and> typing signatures [''x'' \<mapsto> IntT] (Paren (Ident ''x'')) = Some (IntT, Lvalue)
     \<and> (\<exists>c s1 x b s2. rule3_decls s = Inr (c, s1) \<and> fst c = RRef IntT
            \<and> rule2_decls s = Inr ((x, b), s2) \<and> fst b = LRef IntT \<and> fst c \<noteq> fst b)"
proof -
  have "rule3_decls s = Inr ((RRef IntT, StaticVal), static_init StaticVal (IntV 42) s)"
    using assms by (rule rule3_decls_effect)
  moreover have "\<exists>x b s2. rule2_decls s = Inr ((x, b), s2) \<and> fst b = LRef IntT"
    by (simp add: rule2_decls_def store_defs deduction_defs)
  ultimately show ?thesis
    by (auto simp: deduction_defs)
qed

theorem xvalue_binding_is_rvalue_reference_witness:
  "static_val_ok initial_state
   \<and> (\<exists>c s1. rule3_decls initial_state = Inr (c, s1) \<and> fst c = RRef IntT)"
  using xvalue_binding_is_rvalue_reference [of initial_state]
  by (auto simp: initial_state_ok)

text \<open>
  C7. \<^verbatim>\<open>main\<close>, started in the initial state, returns 0, and what it has written is
  the text of the eight demonstrations in their order, which depends on nothing but the
  names the implementation gives to the types. Where those names are plain, the banner
  lines of the output are exactly the eight banners, in that order.
\<close>

theorem main_writes_eight_sections:
  "length demonstrations = 8
   \<and> (\<exists>s. run tn = Inr (0, s) \<and> stdout s = expected_output tn
        \<and> (plain_names tn \<longrightarrow>
             banners (stdout s) =
               [''Rule 1:'', ''Rule 2:'', ''Rule 3:'', ''Rule 4:'', ''Function Return Type:'',
                ''Complex Types:'', ''decltype(auto) Demo:'', ''Parentheses Effect:'']))"
proof -
  obtain s where s: "run tn = Inr (0, s)" "stdout s = expected_output tn"
    using run_effect [of tn] by blast
  have "banners (stdout s) =
      [''Rule 1:'', ''Rule 2:'', ''Rule 3:'', ''Rule 4:'', ''Function Return Type:'',
       ''Complex Types:'', ''decltype(auto) Demo:'', ''Parentheses Effect:'']"
    if "plain_names tn"
    using banners_expected_output [OF that] by (simp add: s demonstrations_def)
  with s show ?thesis
    by (simp add: demonstrations_def)
qed

theorem main_writes_eight_sections_witness:
  "plain_names gcc_type_name
   \<and> (\<exists>s. run gcc_type_name = Inr (0, s)
        \<and> banners (stdout s) =
            [''Rule 1:'', ''Rule 2:'', ''Rule 3:'', ''Rule 4:'', ''Function Return Type:'',
             ''Complex Types:'', ''decltype(auto) Demo:'', ''Parentheses Effect:''])"
  using main_writes_eight_sections [of gcc_type_name] plain_names_gcc
  by auto

text \<open>
  C8. Started in a state in which \<^verbatim>\<open>global_var\<close> is alive and the static of
  \<^verbatim>\<open>get_rvalue\<close> is untouched or holds 42, each of the eight routines returns without
  an error, and so does \<^verbatim>\<open>main\<close>, with the status 0 and in a state of the same kind;
  in \<^verbatim>\<open>complex_types\<close> the iterator is taken at position 0 of the vector of the three
  elements 1, 2, 3. The initial state is such a state, so the program returns 0.
\<close>

theorem no_runtime_failure:
  assumes "global_var_alive s" and "static_val_ok s"
  shows "(\<exists>s'. rule1 tn s = Inr s')
     \<and> (\<exists>s'. rule2 tn s = Inr s')
     \<and> (\<exists>s'. rule3 tn s = Inr s')
     \<and> (\<exists>s'. rule4 tn s = Inr s')
     \<and> (\<exists>s'. function_return_type tn s = Inr s')
     \<and> (\<exists>s'. complex_types tn s = Inr s')
     \<and> (\<exists>s'. decltype_auto_demo tn s = Inr s')
     \<and> (\<exists>s'. parentheses_effect tn s = Inr s')
     \<and> (\<exists>vec it s'. complex_types_decls s = Inr ((vec, it), s')
           \<and> load (snd vec) s' = Inr (VectorV [1, 2, 3])
           \<and> load (snd it) s' = Inr (IteratorV (snd vec) 0))
     \<and> (\<exists>s'. main tn s = Inr (0, s') \<and> global_var_alive s' \<and> static_val_ok s')
     \<and> (\<exists>s'. run tn = Inr (0, s'))"
proof -
  have vec: "\<exists>vec it s'. complex_types_decls s = Inr ((vec, it), s')
      \<and> load (snd vec) s' = Inr (VectorV [1, 2, 3])
      \<and> load (snd it) s' = Inr (IteratorV (snd vec) 0)"
    by (simp add: complex_types_decls_def begin_of_def store_defs deduction_defs)
  obtain s' where s': "main tn s = Inr (0, s')" "store s' GlobalVar = store s GlobalVar"
      "store s' StaticVal = Some (IntV 42)"
    using main_effect [OF assms, of tn] by blast
  have "global_var_alive s'" "static_val_ok s'"
    using assms(1) s'(2,3) by (simp_all add: global_var_alive_def static_val_ok_def)
  with s'(1) have main: "\<exists>s'. main tn s = Inr (0, s') \<and> global_var_alive s' \<and> static_val_ok s'"
    by blast
  have run: "\<exists>s'. run tn = Inr (0, s')"
    using run_effect [of tn] by blast
  from vec main run show ?thesis
    by (simp add: rule1_effect rule2_effect rule3_effect [OF assms(2)] rule4_effect
        function_return_type_effect complex_types_effect
        decltype_auto_demo_effect [OF assms(1)] parentheses_effect_effect)
qed

theorem no_runtime_failure_witness:
  "global_var_alive initial_state \<and> static_val_ok initial_state
   \<and> (\<exists>s'. main gcc_type_name initial_state = Inr (0, s'))"
  using no_runtime_failure [of initial_state gcc_type_name]
  by (auto simp: initial_state_ok)

text \<open>
  C9. No routine writes \<^verbatim>\<open>global_var\<close>: where it holds 10 (as it does in the initial
  state), \<^verbatim>\<open>get_ref\<close>, \<^verbatim>\<open>get_auto\<close> and \<^verbatim>\<open>get_decltype_auto\<close> give 10, \<open>val\<close> and
  \<open>ref\<close> in \<^verbatim>\<open>decltype_auto_demo\<close> both hold 10, and it still holds 10 after each of
  the eight routines, after \<^verbatim>\<open>main\<close>, and at the end of the run of the program.
\<close>

theorem global_var_never_written:
  assumes "store s GlobalVar = Some (IntV 10)" and "static_val_ok s"
  shows "and_then (get_ref s) (\<lambda>r. rvalue_of r s) = Inr (IntV 10)
     \<and> and_then (get_auto s) (\<lambda>r. rvalue_of r s) = Inr (IntV 10)
     \<and> and_then (get_decltype_auto s) (\<lambda>r. rvalue_of r s) = Inr (IntV 10)
     \<and> (\<exists>val ref s'. decltype_auto_demo_decls s = Inr ((val, ref), s')
           \<and> load (snd val) s' = Inr (IntV 10) \<and> load (snd ref) s' = Inr (IntV 10)
           \<and> store s' GlobalVar = Some (IntV 10))
     \<and> (\<exists>s'. rule1 tn s = Inr s' \<and> store s' GlobalVar = Some (IntV 10))
     \<and> (\<exists>s'. rule2 tn s = Inr s' \<and> store s' GlobalVar = Some (IntV 10))
     \<and> (\<exists>s'. rule3 tn s = Inr s' \<and> store s' GlobalVar = Some (IntV 10))
     \<and> (\<exists>s'. rule4 tn s = Inr s' \<and> store s' GlobalVar = Some (IntV 10))
     \<and> (\<exists>s'. function_return_type tn s = Inr s' \<and> store s' GlobalVar = Some (IntV 10))
     \<and> (\<exists>s'. complex_types tn s = Inr s' \<and> store s' GlobalVar = Some (IntV 10))
     \<and> (\<exists>s'. decltype_auto_demo tn s = Inr s' \<and> store s' GlobalVar = Some (IntV 10))
     \<and> (\<exists>s'. parentheses_effect tn s = Inr s' \<and> store s' GlobalVar = Some (IntV 10))
     \<and> (\<exists>s'. main tn s = Inr (0, s') \<and> store s' GlobalVar = Some (IntV 10))
     \<and> store initial_state GlobalVar = Some (IntV 10)
     \<and> (\<exists>s'. run tn = Inr (0, s') \<and> store s' GlobalVar = Some (IntV 10))"
proof -
  note g = assms(1)
  have alive: "global_var_alive s"
    by (simp add: global_var_alive_def g)
  have getters: "and_then (get_ref s) (\<lambda>r. rvalue_of r s) = Inr (IntV 10)"
      "and_then (get_auto s) (\<lambda>r. rvalue_of r s) = Inr (IntV 10)"
      "and_then (get_decltype_auto s) (\<lambda>r. rvalue_of r s) = Inr (IntV 10)"
    by (simp_all add: g get_ref_def get_auto_def get_decltype_auto_def store_defs deduction_defs)
  have demo: "\<exists>val ref s'. decltype_auto_demo_decls s = Inr ((val, ref), s')
      \<and> load (snd val) s' = Inr (IntV 10) \<and> load (snd ref) s' = Inr (IntV 10)
      \<and> store s' GlobalVar = Some (IntV 10)"
    by (simp add: g decltype_auto_demo_decls_def get_ref_def get_auto_def get_decltype_auto_def
        store_defs deduction_defs)
  have main: "\<exists>s'. main tn s = Inr (0, s') \<and> store s' GlobalVar = Some (IntV 10)"
    using main_effect [OF alive assms(2), of tn] g by auto
  have run: "\<exists>s'. run tn = Inr (0, s') \<and> store s' GlobalVar = Some (IntV 10)"
    using run_effect [of tn] by blast
  from getters demo main run show ?thesis
    by (simp add: g initial_state_ok rule1_effect rule2_effect rule3_effect [OF assms(2)]
        rule4_effect function_return_type_effect complex_types_effect
        decltype_auto_demo_effect [OF alive] parentheses_effect_effect)
qed

theorem global_var_never_written_witness:
  "store initial_state GlobalVar = Some (IntV 10) \<and> static_val_ok initial_state
   \<and> (\<exists>s'. main gcc_type_name initial_state = Inr (0, s')
          \<and> store s' GlobalVar = Some (IntV 10))"
  using global_var_never_written [of initial_state gcc_type_name]
  by (auto simp: initial_state_ok)

text \<open>
  C10. \<^verbatim>\<open>get_rvalue\<close> returns an xvalue for its one static object, which holds 42
  after the call; a further call returns the same object and changes nothing; the
  binding \<open>c\<close> of \<^verbatim>\<open>rule3\<close> names that object and 42 is read through it; the static
  object still holds 42 after \<^verbatim>\<open>rule3\<close>, the other seven routines leave it as it is,
  and it holds 42 at the end of the run of the program.
\<close>

theorem get_rvalue_static_holds_42:
  assumes "static_val_ok s" and "global_var_alive s"
  shows "\<exists>s1. get_rvalue s = Inr (XvalueAt StaticVal, s1)
      \<and> store s1 StaticVal = Some (IntV 42)
      \<and> get_rvalue s1 = Inr (XvalueAt StaticVal, s1)
      \<and> (\<exists>c s2. rule3_decls s = Inr (c, s2) \<and> snd c = StaticVal
            \<and> load (snd c) s2 = Inr (IntV 42))
      \<and> (\<exists>s'. rule3 tn s = Inr s' \<and> store s' StaticVal = Some (IntV 42))
      \<and> (\<exists>s'. rule1 tn s = Inr s' \<and> store s' StaticVal = store s StaticVal)
      \<and> (\<exists>s'. rule2 tn s = Inr s' \<and> store s' StaticVal = store s StaticVal)
      \<and> (\<exists>s'. rule4 tn s = Inr s' \<and> store s' StaticVal = store s StaticVal)
      \<and> (\<exists>s'. function_return_type tn s = Inr s' \<and> store s' StaticVal = store s StaticVal)
      \<and> (\<exists>s'. complex_types tn s = Inr s' \<and> store s' StaticVal = store s StaticVal)
      \<and> (\<exists>s'. decltype_auto_demo tn s = Inr s' \<and> store s' StaticVal = store s StaticVal)
      \<and> (\<exists>s'. parentheses_effect tn s = Inr s' \<and> store s' StaticVal = store s StaticVal)
      \<and> (\<exists>s'. run tn = Inr (0, s') \<and> store s' StaticVal = Some (IntV 42))"
proof -
  let ?s1 = "static_init StaticVal (IntV 42) s"
  have first: "get_rvalue s = Inr (XvalueAt StaticVal, ?s1)"
    using assms(1) by (rule get_rvalue_effect)
  have holds: "store ?s1 StaticVal = Some (IntV 42)"
    using assms(1) by simp
  have "get_rvalue ?s1 = Inr (XvalueAt StaticVal, static_init StaticVal (IntV 42) ?s1)"
    using assms(1) by (intro get_rvalue_effect) simp
  then have second: "get_rvalue ?s1 = Inr (XvalueAt StaticVal, ?s1)"
    by (simp add: static_init_again [OF holds])
  have c: "\<exists>c s2. rule3_decls s = Inr (c, s2) \<and> snd c = StaticVal
      \<and> load (snd c) s2 = Inr (IntV 42)"
    by (simp add: rule3_decls_effect [OF assms(1)] load_def holds)
  have rule3: "\<exists>s'. rule3 tn s = Inr s' \<and> store s' StaticVal = Some (IntV 42)"
    by (simp add: rule3_effect [OF assms(1)] holds)
  have run: "\<exists>s'. run tn = Inr (0, s') \<and> store s' StaticVal = Some (IntV 42)"
    using run_effect [of tn] by blast
  have others: "(\<exists>s'. rule1 tn s = Inr s' \<and> store s' StaticVal = store s StaticVal)
      \<and> (\<exists>s'. rule2 tn s = Inr s' \<and> store s' StaticVal = store s StaticVal)
      \<and> (\<exists>s'. rule4 tn s = Inr s' \<and> store s' StaticVal = store s StaticVal)
      \<and> (\<exists>s'. function_return_type tn s = Inr s' \<and> store s' StaticVal = store s StaticVal)
      \<and> (\<exists>s'. complex_types tn s = Inr s' \<and> store s' StaticVal = store s StaticVal)
      \<and> (\<exists>s'. decltype_auto_demo tn s = Inr s' \<and> store s' StaticVal = store s StaticVal)
      \<and> (\<exists>s'. parentheses_effect tn s = Inr s' \<and> store s' StaticVal = store s StaticVal)"
    by (simp add: rule1_effect rule2_effect rule4_effect function_return_type_effect
        complex_types_effect decltype_auto_demo_effect [OF assms(2)] parentheses_effect_effect)
  from first holds second c rule3 others run show ?thesis
    by blast
qed

theorem get_rvalue_static_holds_42_witness:
  "static_val_ok initial_state \<and> global_var_alive initial_state
   \<and> (\<exists>s1. get_rvalue initial_state = Inr (XvalueAt StaticVal, s1)
          \<and> store s1 StaticVal = Some (IntV 42))"
  using get_rvalue_static_holds_42 [of initial_state gcc_type_name]
  by (auto simp: initial_state_ok)

end
